theory Spec2Isabelle
  imports Complex_Main "HOL-Library.AList" "HOL-Library.Multiset"
begin

section \<open>Values shared by the three programs\<close>

text \<open>
  The weather provider's payload and the documents of the \<open>weather_reports\<close> collection are
  JSON values. A Python \<open>dict\<close> is an association list in insertion order; \<open>JDate\<close> is a
  \<open>datetime\<close> (a count of clock ticks), which only the pipeline itself writes.
  Numbers are rationals: no claim below computes with them.
\<close>

datatype json =
    JNull
  | JBool bool
  | JNum rat
  | JStr string
  | JDate nat
  | JArr "json list"
  | JObj "(string \<times> json) list"

type_synonym dict = "(string \<times> json) list"

text \<open>The exceptions that the modelled code can raise and does not catch.\<close>

datatype py_error = KeyError string | TypeError | IndexError | AttributeError

text \<open>\<open>k in d\<close>, \<open>d.get(k, default)\<close> and \<open>d[k] = v\<close> on a dict.\<close>

definition dict_has :: "dict \<Rightarrow> string \<Rightarrow> bool" where
  "dict_has d k = (map_of d k \<noteq> None)"

definition dict_get :: "dict \<Rightarrow> string \<Rightarrow> json \<Rightarrow> json" where
  "dict_get d k dflt = (case map_of d k of None \<Rightarrow> dflt | Some v \<Rightarrow> v)"

definition dict_set :: "dict \<Rightarrow> string \<Rightarrow> json \<Rightarrow> dict" where
  "dict_set d k v = AList.update k v d"

text \<open>
  \<open>v[k]\<close> with a string key on an arbitrary value: a dict looks the key up and raises
  \<open>KeyError\<close> when it is absent; every other value raises \<open>TypeError\<close>.
\<close>

fun getitem :: "json \<Rightarrow> string \<Rightarrow> py_error + json" where
  "getitem (JObj d) k = (case map_of d k of None \<Rightarrow> Inl (KeyError k) | Some v \<Rightarrow> Inr v)"
| "getitem v k = Inl TypeError"

text \<open>\<open>v.get(k, default)\<close> on an arbitrary value: only a dict has the method.\<close>

fun get_method :: "json \<Rightarrow> string \<Rightarrow> json \<Rightarrow> py_error + json" where
  "get_method (JObj d) k dflt = Inr (dict_get d k dflt)"
| "get_method v k dflt = Inl AttributeError"

text \<open>
  \<open>v[0]\<close> on an arbitrary value: the first element of a list or the first character of
  a string, \<open>IndexError\<close> when these are empty, \<open>KeyError\<close> on a dict (its keys are
  strings), \<open>TypeError\<close> otherwise.
\<close>

fun first_item :: "json \<Rightarrow> py_error + json" where
  "first_item (JArr []) = Inl IndexError"
| "first_item (JArr (x # xs)) = Inr x"
| "first_item (JStr []) = Inl IndexError"
| "first_item (JStr (c # cs)) = Inr (JStr [c])"
| "first_item (JObj d) = Inl (KeyError ''0'')"
| "first_item v = Inl TypeError"

text \<open>Sequencing of steps that may raise: the first exception ends the evaluation.\<close>

definition and_then :: "py_error + 'a \<Rightarrow> ('a \<Rightarrow> py_error + 'b) \<Rightarrow> py_error + 'b" where
  "and_then r f = (case r of Inl e \<Rightarrow> Inl e | Inr v \<Rightarrow> f v)"

text \<open>
  The document collection is an append-only list in insertion order. The identifier that
  the store assigns to a document on insertion is not modelled.
\<close>

type_synonym collection = "dict list"

section \<open>fetch\_weather.py\<close>

text \<open>
  Truth value of \<open>if weather_data:\<close>. \<open>fetch_weather_data\<close> returns \<open>None\<close> on a
  request failure and the decoded body otherwise; a decoded \<open>null\<close> is \<open>None\<close> as well.
\<close>

fun truthy :: "json option \<Rightarrow> bool" where
  "truthy None = False"
| "truthy (Some JNull) = False"
| "truthy (Some (JBool b)) = b"
| "truthy (Some (JNum n)) = (n \<noteq> 0)"
| "truthy (Some (JStr s)) = (s \<noteq> [])"
| "truthy (Some (JDate t)) = True"
| "truthy (Some (JArr xs)) = (xs \<noteq> [])"
| "truthy (Some (JObj d)) = (d \<noteq> [])"

text \<open>
  Lines 65 to 78 of \<open>transform_and_load_to_mongo\<close>: the three assignments to \<open>data\<close>.
  \<open>now\<close> is the value that \<open>datetime.utcnow()\<close> returns in this call. The assignments
  raise \<open>TypeError\<close> when \<open>data\<close> is not a dict; the reads \<open>data['coord']['lon']\<close> and
  \<open>data['coord']['lat']\<close> raise as \<open>getitem\<close> does.
\<close>

definition geojson_point :: "json \<Rightarrow> json \<Rightarrow> json" where
  "geojson_point lon lat =
     JObj [(''type'', JStr ''Point''), (''coordinates'', JArr [lon, lat])]"

fun transform :: "nat \<Rightarrow> json \<Rightarrow> string \<Rightarrow> py_error + dict" where
  "transform now (JObj data) city_name =
     (let d1 = dict_set data ''fetch_timestamp'' (JDate now);
          d2 = dict_set d1 ''city_name_clean'' (JStr city_name)
      in if dict_has d2 ''coord''
         then and_then (and_then (getitem (JObj d2) ''coord'') (\<lambda>c. getitem c ''lon''))
                (\<lambda>lon. and_then (and_then (getitem (JObj d2) ''coord'') (\<lambda>c. getitem c ''lat''))
                  (\<lambda>lat. Inr (dict_set d2 ''geojson_location'' (geojson_point lon lat))))
         else Inr d2)"
| "transform now v city_name = Inl TypeError"

text \<open>
  \<open>transform_and_load_to_mongo(data, city_name)\<close>. \<open>insert_ok\<close> tells whether
  \<open>insert_one\<close> succeeds in this call; any exception of the load part is caught and
  turned into \<open>False\<close>. The transform part is outside the \<open>try\<close>, so its exceptions
  leave the function. The result is the returned flag and the collection afterwards.
\<close>

definition transform_and_load_to_mongo ::
  "nat \<Rightarrow> bool \<Rightarrow> json option \<Rightarrow> string \<Rightarrow> collection \<Rightarrow> py_error + (bool \<times> collection)" where
  "transform_and_load_to_mongo now insert_ok data city_name coll =
     (case data of
        None \<Rightarrow> Inr (False, coll)
      | Some JNull \<Rightarrow> Inr (False, coll)
      | Some v \<Rightarrow>
          and_then (transform now v city_name)
            (\<lambda>doc. if insert_ok then Inr (True, coll @ [doc]) else Inr (False, coll)))"

text \<open>
  The world outside one run of \<open>main\<close>, indexed by the position of the location in the
  loop: the provider's answer to the request (\<open>None\<close> when the request fails), the clock
  reading, and whether the insertion succeeds.
\<close>

record world =
  http_get :: "nat \<Rightarrow> rat \<Rightarrow> rat \<Rightarrow> json option"
  utcnow :: "nat \<Rightarrow> nat"
  insert_ok :: "nat \<Rightarrow> bool"

definition fetch_weather_data :: "world \<Rightarrow> nat \<Rightarrow> rat \<Rightarrow> rat \<Rightarrow> json option" where
  "fetch_weather_data w i lat lon = http_get w i lat lon"

text \<open>
  \<open>get_locations_from_postgres\<close>: at most 100 rows of the table, or the empty list when
  the query fails.
\<close>

definition get_locations_from_postgres ::
  "bool \<Rightarrow> (string \<times> rat \<times> rat) list \<Rightarrow> (string \<times> rat \<times> rat) list" where
  "get_locations_from_postgres pg_ok locations_table =
     (if pg_ok then take 100 locations_table else [])"

text \<open>
  The loop of \<open>main\<close> (lines 112 to 129), with the two counters and the collection as
  state. An exception of the transform ends the run.
\<close>

fun main_loop ::
  "world \<Rightarrow> nat \<Rightarrow> (string \<times> rat \<times> rat) list \<Rightarrow> nat \<times> nat \<times> collection
     \<Rightarrow> py_error + (nat \<times> nat \<times> collection)" where
  "main_loop w i [] acc = Inr acc"
| "main_loop w i ((city_name, lat, lon) # locations) (success_count, fail_count, coll) =
     (let weather_data = fetch_weather_data w i lat lon
      in if truthy weather_data
         then and_then
                (transform_and_load_to_mongo (utcnow w i) (insert_ok w i) weather_data city_name coll)
                (\<lambda>(ok, coll').
                   if ok then main_loop w (Suc i) locations (Suc success_count, fail_count, coll')
                   else main_loop w (Suc i) locations (success_count, Suc fail_count, coll'))
         else main_loop w (Suc i) locations (success_count, Suc fail_count, coll))"

text \<open>
  \<open>main\<close> of fetch\_weather.py. The report is what the run prints: nothing but the abort
  message when there is no location, the two counters otherwise.
\<close>

datatype run_report = NoLocations | Complete nat nat

definition main_fetch_weather ::
  "world \<Rightarrow> bool \<Rightarrow> (string \<times> rat \<times> rat) list \<Rightarrow> collection
     \<Rightarrow> py_error + (run_report \<times> collection)" where
  "main_fetch_weather w pg_ok locations_table coll =
     (let locations = get_locations_from_postgres pg_ok locations_table
      in if locations = [] then Inr (NoLocations, coll)
         else and_then (main_loop w 0 locations (0, 0, coll))
                (\<lambda>(success_count, fail_count, coll'). Inr (Complete success_count fail_count, coll')))"

section \<open>Mini\_Project/app.py\<close>

text \<open>
  The store orders documents by \<open>fetch_timestamp\<close>. A datetime sorts above every other
  JSON value and above a missing field; the model gives a datetime the key \<open>Suc t\<close> and
  everything else the key \<open>0\<close>. The code asks the store for a sort and says nothing
  about documents with equal keys, so the sort is a parameter of the two queries:
  \<open>sorts_ascending\<close> and \<open>sorts_descending\<close> say what every sort of the store does.
\<close>

definition ts_key :: "dict \<Rightarrow> nat" where
  "ts_key d = (case map_of d ''fetch_timestamp'' of Some (JDate t) \<Rightarrow> Suc t | _ \<Rightarrow> 0)"

definition sorts_ascending :: "(dict list \<Rightarrow> dict list) \<Rightarrow> bool" where
  "sorts_ascending srt \<longleftrightarrow>
     (\<forall>ds. mset (srt ds) = mset ds \<and> sorted (map ts_key (srt ds)))"

definition sorts_descending :: "(dict list \<Rightarrow> dict list) \<Rightarrow> bool" where
  "sorts_descending srt \<longleftrightarrow>
     (\<forall>ds. mset (srt ds) = mset ds \<and> sorted (rev (map ts_key (srt ds))))"

text \<open>
  Two sorts that keep the insertion order among documents with equal keys, as a scan of the
  collection followed by a sort in memory does.
\<close>

definition stable_sort_asc :: "dict list \<Rightarrow> dict list" where
  "stable_sort_asc ds = sort_key ts_key ds"

definition stable_sort_desc :: "dict list \<Rightarrow> dict list" where
  "stable_sort_desc ds = rev (sort_key ts_key (rev ds))"

text \<open>
  The \<open>$group\<close> stage with \<open>$first\<close>: one report per value of \<open>city_name_clean\<close>, holding
  the first document of the sorted input that has this value. A missing field groups as
  \<open>null\<close>. \<open>seen\<close> holds the group identifiers already emitted.
\<close>

definition group_id :: "dict \<Rightarrow> json" where
  "group_id d = dict_get d ''city_name_clean'' JNull"

fun group_first :: "json list \<Rightarrow> dict list \<Rightarrow> (json \<times> dict) list" where
  "group_first seen [] = []"
| "group_first seen (d # ds) =
     (if group_id d \<in> set seen then group_first seen ds
      else (group_id d, d) # group_first (group_id d # seen) ds)"

definition aggregate_latest :: "(dict list \<Rightarrow> dict list) \<Rightarrow> collection \<Rightarrow> (json \<times> dict) list" where
  "aggregate_latest sort_desc coll = group_first [] (sort_desc coll)"

text \<open>One row of the frame that \<open>get_latest_weather_from_mongo\<close> returns.\<close>

record map_row =
  map_city_name :: json
  map_temperature :: json
  map_condition :: json
  map_lat :: json
  map_lon :: json
  map_timestamp :: json

text \<open>
  Lines 73 to 81: the dict built from one report. Its entries are evaluated in the order
  written, and the first exception leaves the function.
\<close>

definition flatten_report :: "dict \<Rightarrow> py_error + map_row" where
  "flatten_report doc =
     and_then (get_method (dict_get doc ''main'' (JObj [])) ''temp'' JNull) (\<lambda>temp.
     and_then (and_then (first_item (dict_get doc ''weather'' (JArr [JObj []])))
                 (\<lambda>w. get_method w ''description'' (JStr ''N/A''))) (\<lambda>cond.
     and_then (get_method (dict_get doc ''coord'' (JObj [])) ''lat'' JNull) (\<lambda>lat.
     and_then (get_method (dict_get doc ''coord'' (JObj [])) ''lon'' JNull) (\<lambda>lon.
       Inr \<lparr> map_city_name = dict_get doc ''city_name_clean'' (JStr ''Unknown''),
             map_temperature = temp,
             map_condition = cond,
             map_lat = lat,
             map_lon = lon,
             map_timestamp = dict_get doc ''fetch_timestamp'' JNull \<rparr>))))"

fun flatten_all :: "(json \<times> dict) list \<Rightarrow> py_error + map_row list" where
  "flatten_all [] = Inr []"
| "flatten_all (report # reports) =
     and_then (flatten_report (snd report))
       (\<lambda>row. and_then (flatten_all reports) (\<lambda>rows. Inr (row # rows)))"

text \<open>
  \<open>get_latest_weather_from_mongo()\<close>: the rows, or the exception, and the collection
  after the call.
\<close>

definition get_latest_weather_from_mongo ::
  "(dict list \<Rightarrow> dict list) \<Rightarrow> collection \<Rightarrow> (py_error + map_row list) \<times> collection" where
  "get_latest_weather_from_mongo sort_desc coll =
     (flatten_all (aggregate_latest sort_desc coll), coll)"

text \<open>One row of the frame that \<open>get_city_history_from_mongo\<close> returns.\<close>

record hist_row =
  hist_timestamp :: json
  hist_temperature :: json

definition history_row :: "dict \<Rightarrow> py_error + hist_row" where
  "history_row doc =
     and_then (get_method (dict_get doc ''main'' (JObj [])) ''temp'' JNull)
       (\<lambda>temp. Inr \<lparr> hist_timestamp = dict_get doc ''fetch_timestamp'' JNull,
                      hist_temperature = temp \<rparr>)"

fun history_rows :: "dict list \<Rightarrow> py_error + hist_row list" where
  "history_rows [] = Inr []"
| "history_rows (doc # reports) =
     and_then (history_row doc)
       (\<lambda>row. and_then (history_rows reports) (\<lambda>rows. Inr (row # rows)))"

text \<open>
  The query \<open>{"city_name_clean": selected_city}\<close> selects the documents whose field is
  this string, or is an array with this string among its elements.
\<close>

definition matches_city :: "string \<Rightarrow> dict \<Rightarrow> bool" where
  "matches_city selected_city d =
     (case map_of d ''city_name_clean'' of
        Some (JStr c) \<Rightarrow> c = selected_city
      | Some (JArr xs) \<Rightarrow> JStr selected_city \<in> set xs
      | _ \<Rightarrow> False)"

definition get_city_history_from_mongo ::
  "(dict list \<Rightarrow> dict list) \<Rightarrow> string \<Rightarrow> collection \<Rightarrow> (py_error + hist_row list) \<times> collection" where
  "get_city_history_from_mongo sort_asc selected_city coll =
     (history_rows (sort_asc (filter (matches_city selected_city) coll)), coll)"

text \<open>
  The specification's snapshot rule, in its own words: for one key, the observation with
  the maximum timestamp, and among several of these the one inserted last.
\<close>

definition spec_latest :: "collection \<Rightarrow> json \<Rightarrow> dict option" where
  "spec_latest coll k =
     (let ds = filter (\<lambda>d. group_id d = k) coll;
          top = filter (\<lambda>d. \<forall>d' \<in> set ds. ts_key d' \<le> ts_key d) ds
      in if top = [] then None else Some (last top))"

text \<open>
  Shapes of documents. An observation is what \<open>transform\<close> writes: a string under
  \<open>city_name_clean\<close> and a datetime under \<open>fetch_timestamp\<close>. A document is renderable
  when the optional paths that \<open>flatten_report\<close> follows go through dicts and a
  non-empty list, which is the shape of the provider's payload.
\<close>

definition is_observation :: "dict \<Rightarrow> bool" where
  "is_observation d \<longleftrightarrow>
     (case map_of d ''city_name_clean'' of Some (JStr c) \<Rightarrow> True | _ \<Rightarrow> False) \<and>
     (case map_of d ''fetch_timestamp'' of Some (JDate t) \<Rightarrow> True | _ \<Rightarrow> False)"

definition is_dict :: "json \<Rightarrow> bool" where
  "is_dict v = (case v of JObj d \<Rightarrow> True | _ \<Rightarrow> False)"

definition main_ok :: "dict \<Rightarrow> bool" where
  "main_ok d = is_dict (dict_get d ''main'' (JObj []))"

definition renderable :: "dict \<Rightarrow> bool" where
  "renderable d \<longleftrightarrow>
     main_ok d \<and> is_dict (dict_get d ''coord'' (JObj [])) \<and>
     (case dict_get d ''weather'' (JArr [JObj []]) of JArr (w # ws) \<Rightarrow> is_dict w | _ \<Rightarrow> False)"

section \<open>Mini\_Project/load\_locations.py\<close>

text \<open>
  A row of the frame read from the CSV file, projected to \<open>COLUMNS_TO_USE\<close>. The file
  is read with \<open>dtype=str\<close>: a cell is a string, or missing.
\<close>

record raw_row =
  AccentCity :: "string option"
  Latitude :: "string option"
  Longitude :: "string option"

text \<open>A row after the renaming and the conversion of both coordinates.\<close>

record loc_row =
  city_name :: string
  latitude :: rat
  longitude :: rat

text \<open>Step 3, \<open>dropna\<close>: a row with a missing cell in one of the three columns goes.\<close>

fun dropna :: "raw_row list \<Rightarrow> (string \<times> string \<times> string) list" where
  "dropna [] = []"
| "dropna (r # rs) =
     (case (AccentCity r, Latitude r, Longitude r) of
        (Some c, Some la, Some lo) \<Rightarrow> (c, la, lo) # dropna rs
      | _ \<Rightarrow> dropna rs)"

text \<open>
  Step 4, \<open>pd.to_numeric\<close> on a column. The parser of one cell is a parameter
  (\<open>None\<close>: the string is not a number); the conversion of the column raises as soon as
  one cell does not parse.
\<close>

fun to_numeric_column :: "(string \<Rightarrow> rat option) \<Rightarrow> string list \<Rightarrow> rat list option" where
  "to_numeric_column to_numeric [] = Some []"
| "to_numeric_column to_numeric (s # ss) =
     (case to_numeric s of
        None \<Rightarrow> None
      | Some v \<Rightarrow> map_option ((#) v) (to_numeric_column to_numeric ss))"

text \<open>Step 5, \<open>drop_duplicates(subset=['city_name'], keep='first')\<close>.\<close>

fun drop_duplicates :: "string list \<Rightarrow> loc_row list \<Rightarrow> loc_row list" where
  "drop_duplicates seen [] = []"
| "drop_duplicates seen (r # rs) =
     (if city_name r \<in> set seen then drop_duplicates seen rs
      else r # drop_duplicates (city_name r # seen) rs)"

definition make_rows :: "(string \<times> string \<times> string) list \<Rightarrow> rat list \<Rightarrow> rat list \<Rightarrow> loc_row list" where
  "make_rows rows lats lons =
     map (\<lambda>((c, la, lo), lat, lon). \<lparr> city_name = c, latitude = lat, longitude = lon \<rparr>)
       (zip rows (zip lats lons))"

text \<open>
  \<open>transform_data(df)\<close>. When a conversion raises, the \<open>except\<close> branch returns an
  empty frame.
\<close>

definition transform_data :: "(string \<Rightarrow> rat option) \<Rightarrow> raw_row list \<Rightarrow> loc_row list" where
  "transform_data to_numeric df =
     (let rows = dropna df
      in case to_numeric_column to_numeric (map (\<lambda>(c, la, lo). la) rows) of
           None \<Rightarrow> []
         | Some lats \<Rightarrow>
             (case to_numeric_column to_numeric (map (\<lambda>(c, la, lo). lo) rows) of
                None \<Rightarrow> []
              | Some lons \<Rightarrow> drop_duplicates [] (make_rows rows lats lons)))"

text \<open>
  A parser of signed decimal literals, for the concrete runs below: an optional minus
  sign, digits, and an optional fraction. Binary rounding is not modelled.
\<close>

definition digit_of :: "char \<Rightarrow> nat option" where
  "digit_of c =
     (if of_char c \<ge> (48::nat) \<and> of_char c \<le> (57::nat) then Some (of_char c - 48) else None)"

fun digits_value :: "nat \<Rightarrow> string \<Rightarrow> nat option" where
  "digits_value acc [] = Some acc"
| "digits_value acc (c # cs) =
     (case digit_of c of None \<Rightarrow> None | Some v \<Rightarrow> digits_value (10 * acc + v) cs)"

definition unsigned_decimal :: "string \<Rightarrow> rat option" where
  "unsigned_decimal s =
     (let ip = takeWhile (\<lambda>c. c \<noteq> CHR ''.'') s;
          rest = dropWhile (\<lambda>c. c \<noteq> CHR ''.'') s;
          fp = (if rest = [] then [] else tl rest)
      in if ip = [] \<or> (rest \<noteq> [] \<and> fp = []) then None
         else (case (digits_value 0 ip, digits_value 0 fp) of
                 (Some i, Some f) \<Rightarrow> Some (of_nat i + of_nat f / of_nat (10 ^ length fp))
               | _ \<Rightarrow> None))"

definition decimal :: "string \<Rightarrow> rat option" where
  "decimal s =
     (case s of
        [] \<Rightarrow> None
      | c # cs \<Rightarrow> if c = CHR ''-'' then map_option uminus (unsigned_decimal cs)
                  else unsigned_decimal s)"

text \<open>
  A row of the \<open>locations\<close> table: the three columns and the geometry that
  \<open>ST_SetSRID(ST_MakePoint(lon, lat), 4326)\<close> builds, as longitude, latitude and SRID.
\<close>

record pg_row = loc_row +
  geom :: "rat \<times> rat \<times> nat"

definition insert_values :: "loc_row \<Rightarrow> pg_row" where
  "insert_values row =
     \<lparr> city_name = city_name row, latitude = latitude row, longitude = longitude row,
       geom = (longitude row, latitude row, 4326) \<rparr>"

text \<open>
  A connection holds the committed table and the rows inserted by the open transaction.
  The environment says whether the connection opens, whether the statement at a given
  position of the batch succeeds, and whether the commit succeeds.
\<close>

record pg_conn =
  committed :: "pg_row list"
  pending :: "pg_row list"

record pg_env =
  connect_ok :: bool
  execute_ok :: "nat \<Rightarrow> bool"
  commit_ok :: bool

text \<open>
  The table's declaration is not part of the sources: \<open>unique_city_name\<close> says whether
  it has a uniqueness constraint on \<open>city_name\<close>. The statement is a plain \<open>INSERT\<close>;
  \<open>None\<close> is a raised database error.
\<close>

definition execute_insert :: "bool \<Rightarrow> pg_env \<Rightarrow> nat \<Rightarrow> loc_row \<Rightarrow> pg_conn \<Rightarrow> pg_conn option" where
  "execute_insert unique_city_name env i row conn =
     (if \<not> execute_ok env i \<or>
         (unique_city_name \<and> city_name row \<in> set (map city_name (committed conn @ pending conn)))
      then None
      else Some (conn\<lparr>pending := pending conn @ [insert_values row]\<rparr>))"

definition commit :: "pg_conn \<Rightarrow> pg_conn" where
  "commit conn = conn\<lparr>committed := committed conn @ pending conn, pending := []\<rparr>"

definition rollback :: "pg_conn \<Rightarrow> pg_conn" where
  "rollback conn = conn\<lparr>pending := []\<rparr>"

text \<open>The loop over \<open>df.iterrows()\<close>: it ends at the first statement that raises.\<close>

fun insert_rows :: "bool \<Rightarrow> pg_env \<Rightarrow> nat \<Rightarrow> loc_row list \<Rightarrow> pg_conn \<Rightarrow> bool \<times> pg_conn" where
  "insert_rows unique_city_name env i [] conn = (True, conn)"
| "insert_rows unique_city_name env i (row # rows) conn =
     (case execute_insert unique_city_name env i row conn of
        None \<Rightarrow> (False, conn)
      | Some conn' \<Rightarrow> insert_rows unique_city_name env (Suc i) rows conn')"

datatype load_report = Loaded nat | LoadFailed

text \<open>
  \<open>load_data(df)\<close>: the printed outcome and the table once the connection is closed.
  When the connection does not open there is nothing to roll back.
\<close>

definition load_data :: "bool \<Rightarrow> pg_env \<Rightarrow> loc_row list \<Rightarrow> pg_row list \<Rightarrow> load_report \<times> pg_row list" where
  "load_data unique_city_name env df table =
     (if \<not> connect_ok env then (LoadFailed, table)
      else (case insert_rows unique_city_name env 0 df \<lparr>committed = table, pending = []\<rparr> of
              (ok, conn) \<Rightarrow>
                if ok \<and> commit_ok env then (Loaded (length df), committed (commit conn))
                else (LoadFailed, committed (rollback conn))))"

text \<open>
  \<open>main\<close> of load\_locations.py. \<open>csv\<close> is \<open>None\<close> when the file cannot be read.
\<close>

datatype loader_report = SourceUnreadable | NothingToLoad | LoadRun load_report

definition main_load_locations ::
  "bool \<Rightarrow> pg_env \<Rightarrow> (string \<Rightarrow> rat option) \<Rightarrow> raw_row list option \<Rightarrow> pg_row list
     \<Rightarrow> loader_report \<times> pg_row list" where
  "main_load_locations unique_city_name env to_numeric csv table =
     (case csv of
        None \<Rightarrow> (SourceUnreadable, table)
      | Some df \<Rightarrow>
          (let df_cleaned = transform_data to_numeric df
           in if df_cleaned \<noteq> []
              then (case load_data unique_city_name env df_cleaned table of
                      (rep, table') \<Rightarrow> (LoadRun rep, table'))
              else (NothingToLoad, table)))"

text \<open>
  The specification's three counts of dropped rows, in its own words: rows with a missing
  required field; rows, among the others, with a coordinate that is not a number; and rows,
  among the remaining ones, whose name an earlier remaining row already has.
\<close>

definition is_numeric_row :: "(string \<Rightarrow> rat option) \<Rightarrow> string \<times> string \<times> string \<Rightarrow> bool" where
  "is_numeric_row to_numeric r =
     (case r of (c, la, lo) \<Rightarrow> to_numeric la \<noteq> None \<and> to_numeric lo \<noteq> None)"




section \<open>Notions used in the statements\<close>

text \<open>
  The coordinate field of a payload is well-shaped when it is absent, or a dict that holds
  both \<open>lon\<close> and \<open>lat\<close>.
\<close>

definition coord_ok :: "dict \<Rightarrow> bool" where
  "coord_ok data \<longleftrightarrow>
     (case map_of data ''coord'' of
        None \<Rightarrow> True
      | Some (JObj c) \<Rightarrow> map_of c ''lon'' \<noteq> None \<and> map_of c ''lat'' \<noteq> None
      | Some v \<Rightarrow> False)"

text \<open>
  What the stored document holds under \<open>geojson_location\<close>: the point built from the
  payload's \<open>lon\<close> and \<open>lat\<close>, in this order, when the payload has \<open>coord\<close>; what the
  payload itself holds there (as a rule nothing) when it has not.
\<close>

definition point_rule :: "dict \<Rightarrow> dict \<Rightarrow> bool" where
  "point_rule data doc \<longleftrightarrow>
     (case map_of data ''coord'' of
        None \<Rightarrow> map_of doc ''geojson_location'' = map_of data ''geojson_location''
      | Some c \<Rightarrow> (\<exists>lon lat. getitem c ''lon'' = Inr lon \<and> getitem c ''lat'' = Inr lat \<and>
            map_of doc ''geojson_location'' = Some (geojson_point lon lat)))"

text \<open>
  What one position of the loop does, read off the world at this position alone:
  \<open>raises_at\<close> says that the provider's answer is truthy and makes the transform raise,
  \<open>stored_at\<close> is the document that the position adds to the collection, if any.
\<close>

definition raises_at :: "world \<Rightarrow> nat \<times> string \<times> rat \<times> rat \<Rightarrow> bool" where
  "raises_at w p =
     (case p of (i, city, lat, lon) \<Rightarrow>
        (case fetch_weather_data w i lat lon of
           None \<Rightarrow> False
         | Some v \<Rightarrow> truthy (Some v) \<and> isl (transform (utcnow w i) v city)))"

definition stored_at :: "world \<Rightarrow> nat \<times> string \<times> rat \<times> rat \<Rightarrow> dict option" where
  "stored_at w p =
     (case p of (i, city, lat, lon) \<Rightarrow>
        (case fetch_weather_data w i lat lon of
           None \<Rightarrow> None
         | Some v \<Rightarrow>
             if truthy (Some v) \<and> insert_ok w i
             then (case transform (utcnow w i) v city of Inl e \<Rightarrow> None | Inr doc \<Rightarrow> Some doc)
             else None))"

text \<open>
  A world in which the second request fails and every other request is answered with the
  coordinates asked for and a temperature; three locations.
\<close>

abbreviation world_second_fetch_fails :: world where
  "world_second_fetch_fails \<equiv>
     \<lparr>http_get = (\<lambda>i lat lon. if i = 1 then None
                   else Some (JObj [(''coord'', JObj [(''lon'', JNum lon), (''lat'', JNum lat)]),
                                    (''main'', JObj [(''temp'', JNum 30)])])),
      utcnow = (\<lambda>i. 10 + i),
      insert_ok = (\<lambda>i. True)\<rparr>"

abbreviation world_second_answer_malformed :: world where
  "world_second_answer_malformed \<equiv>
     \<lparr>http_get = (\<lambda>i lat lon. if i = 1 then Some (JArr [JNum 1])
                   else Some (JObj [(''coord'', JObj [(''lon'', JNum lon), (''lat'', JNum lat)]),
                                    (''main'', JObj [(''temp'', JNum 30)])])),
      utcnow = (\<lambda>i. 10 + i),
      insert_ok = (\<lambda>i. True)\<rparr>"

abbreviation three_locations :: "(string \<times> rat \<times> rat) list" where
  "three_locations \<equiv> [(''Lagos'', 6, 3), (''Abuja'', 9, 7), (''Accra'', 5, 0)]"

abbreviation stored_report :: "string \<Rightarrow> rat \<Rightarrow> rat \<Rightarrow> nat \<Rightarrow> dict" where
  "stored_report city lat lon t \<equiv>
     [(''coord'', JObj [(''lon'', JNum lon), (''lat'', JNum lat)]),
      (''main'', JObj [(''temp'', JNum 30)]),
      (''fetch_timestamp'', JDate t),
      (''city_name_clean'', JStr city),
      (''geojson_location'',
       JObj [(''type'', JStr ''Point''), (''coordinates'', JArr [JNum lon, JNum lat])])]"

text \<open>
  The database environment is healthy when the connection opens and every statement and
  the commit succeed, as far as the environment decides.
\<close>

definition healthy :: "pg_env \<Rightarrow> bool" where
  "healthy env \<longleftrightarrow> connect_ok env \<and> (\<forall>i. execute_ok env i) \<and> commit_ok env"

text \<open>The row that a frame row becomes when both of its coordinates parse.\<close>

definition convert_row :: "(string \<Rightarrow> rat option) \<Rightarrow> string \<times> string \<times> string \<Rightarrow> loc_row" where
  "convert_row to_numeric r =
     (case r of (c, la, lo) \<Rightarrow>
        \<lparr> city_name = c, latitude = the (to_numeric la), longitude = the (to_numeric lo) \<rparr>)"

text \<open>Concrete batches, tables and environments for the runs below.\<close>

abbreviation env_ok :: pg_env where
  "env_ok \<equiv> \<lparr>connect_ok = True, execute_ok = (\<lambda>i. True), commit_ok = True\<rparr>"

abbreviation env_second_fails :: pg_env where
  "env_second_fails \<equiv> \<lparr>connect_ok = True, execute_ok = (\<lambda>i. i < 1), commit_ok = True\<rparr>"

abbreviation accra_table :: "pg_row list" where
  "accra_table \<equiv> [\<lparr>city_name = ''Accra'', latitude = 5, longitude = 0, geom = (0, 5, 4326)\<rparr>]"

abbreviation batch_bad_latitude :: "raw_row list" where
  "batch_bad_latitude \<equiv>
     [\<lparr>AccentCity = Some ''Lagos'', Latitude = Some ''6.5'', Longitude = Some ''3.4''\<rparr>,
      \<lparr>AccentCity = Some ''Abuja'', Latitude = Some ''x'', Longitude = Some ''7.5''\<rparr>]"

abbreviation batch_bad_and_duplicate :: "raw_row list" where
  "batch_bad_and_duplicate \<equiv>
     [\<lparr>AccentCity = Some ''Accra'', Latitude = Some ''5.6'', Longitude = Some ''-0.2''\<rparr>,
      \<lparr>AccentCity = Some ''Kano'', Latitude = Some ''abc'', Longitude = Some ''8.5''\<rparr>,
      \<lparr>AccentCity = Some ''Accra'', Latitude = Some ''5.7'', Longitude = Some ''-0.3''\<rparr>]"


abbreviation batch_lagos :: "raw_row list" where
  "batch_lagos \<equiv>
     [\<lparr>AccentCity = Some ''Lagos'', Latitude = Some ''6.5'', Longitude = Some ''3.4''\<rparr>]"

abbreviation lagos_row :: pg_row where
  "lagos_row \<equiv>
     \<lparr>city_name = ''Lagos'', latitude = 13 / 2, longitude = 17 / 5, geom = (17 / 5, 13 / 2, 4326)\<rparr>"

text \<open>Stored reports, rows of the two frames, and three collections for the runs below.\<close>

abbreviation report :: "string \<Rightarrow> nat \<Rightarrow> rat \<Rightarrow> dict" where
  "report city t temp \<equiv>
     [(''main'', JObj [(''temp'', JNum temp)]),
      (''fetch_timestamp'', JDate t),
      (''city_name_clean'', JStr city)]"

abbreviation snapshot_row :: "string \<Rightarrow> nat \<Rightarrow> rat \<Rightarrow> map_row" where
  "snapshot_row city t temp \<equiv>
     \<lparr>map_city_name = JStr city, map_temperature = JNum temp, map_condition = JStr ''N/A'',
      map_lat = JNull, map_lon = JNull, map_timestamp = JDate t\<rparr>"

abbreviation lagos_log :: collection where
  "lagos_log \<equiv> [report ''Lagos'' 10 30, report ''Abuja'' 15 25, report ''Lagos'' 20 32]"

abbreviation tie_log :: collection where
  "tie_log \<equiv> [report ''Lagos'' 10 30, report ''Lagos'' 10 32]"

abbreviation history_point :: "nat \<Rightarrow> rat \<Rightarrow> hist_row" where
  "history_point t temp \<equiv> \<lparr>hist_timestamp = JDate t, hist_temperature = JNum temp\<rparr>"

abbreviation unordered_log :: collection where
  "unordered_log \<equiv> [report ''Lagos'' 20 32, report ''Abuja'' 15 25, report ''Lagos'' 10 30]"

section \<open>The transform of fetch\_weather.py\<close>

lemma map_of_dict_set: "map_of (dict_set d k v) = (map_of d)(k \<mapsto> v)"
  by (simp add: dict_set_def update_conv')

lemma transform_no_coord:
  "map_of data ''coord'' = None \<Longrightarrow>
   transform now (JObj data) city =
     Inr (dict_set (dict_set data ''fetch_timestamp'' (JDate now)) ''city_name_clean'' (JStr city))"
  by (simp add: dict_has_def map_of_dict_set)

lemma transform_coord:
  "map_of data ''coord'' = Some (JObj c) \<Longrightarrow> map_of c ''lon'' = Some lon \<Longrightarrow>
   map_of c ''lat'' = Some lat \<Longrightarrow>
   transform now (JObj data) city =
     Inr (dict_set
            (dict_set (dict_set data ''fetch_timestamp'' (JDate now)) ''city_name_clean'' (JStr city))
            ''geojson_location'' (geojson_point lon lat))"
  by (simp add: dict_has_def map_of_dict_set and_then_def)

lemma transform_timestamp:
  "transform now v city = Inr doc \<Longrightarrow> map_of doc ''fetch_timestamp'' = Some (JDate now)"
  by (cases v) (auto simp: and_then_def map_of_dict_set Let_def split: if_splits sum.splits)

declare transform.simps [simp del]

lemma transform_shape:
  assumes "coord_ok data"
  shows "\<exists>doc. transform now (JObj data) city = Inr doc \<and> point_rule data doc \<and>
     (\<forall>k. k \<notin> {''fetch_timestamp'', ''city_name_clean'', ''geojson_location''}
        \<longrightarrow> map_of doc k = map_of data k) \<and>
     map_of doc ''fetch_timestamp'' = Some (JDate now) \<and>
     map_of doc ''city_name_clean'' = Some (JStr city)"
proof (cases "map_of data ''coord''")
  case None
  then show ?thesis
    by (simp add: transform_no_coord map_of_dict_set point_rule_def)
next
  case (Some c)
  with assms obtain cd lon lat where
    c: "c = JObj cd" "map_of cd ''lon'' = Some lon" "map_of cd ''lat'' = Some lat"
    by (auto simp: coord_ok_def split: json.splits)
  from Some c show ?thesis
    by (simp add: transform_coord [OF _ c(2) c(3)] map_of_dict_set point_rule_def)
qed

lemma transform_raises:
  assumes "\<not> coord_ok data"
  shows "\<exists>e. transform now (JObj data) city = Inl e"
proof -
  from assms obtain c where c: "map_of data ''coord'' = Some c"
    by (auto simp: coord_ok_def split: option.splits)
  let ?d2 = "dict_set (dict_set data ''fetch_timestamp'' (JDate now)) ''city_name_clean'' (JStr city)"
  from c have has: "dict_has ?d2 ''coord''" and get: "getitem (JObj ?d2) ''coord'' = Inr c"
    by (simp_all add: dict_has_def map_of_dict_set)
  have bad: "(\<exists>e. getitem c ''lon'' = Inl e) \<or> (\<exists>e. getitem c ''lat'' = Inl e)"
    using assms c by (cases c) (auto simp: coord_ok_def split: option.splits)
  then show ?thesis
  proof
    assume "\<exists>e. getitem c ''lon'' = Inl e"
    then obtain e where "getitem c ''lon'' = Inl e" ..
    with has get show ?thesis
      by (simp add: transform.simps Let_def and_then_def)
  next
    assume "\<exists>e. getitem c ''lat'' = Inl e"
    then obtain e where e: "getitem c ''lat'' = Inl e" ..
    show ?thesis
    proof (cases "getitem c ''lon''")
      case (Inl a)
      with has get show ?thesis by (simp add: transform.simps Let_def and_then_def)
    next
      case (Inr lon)
      with has get e show ?thesis by (simp add: transform.simps Let_def and_then_def)
    qed
  qed
qed

lemma load_raises:
  "transform now (JObj data) city = Inl e \<Longrightarrow>
   transform_and_load_to_mongo now ok (Some (JObj data)) city coll = Inl e"
  by (simp add: transform_and_load_to_mongo_def and_then_def)

text \<open>
  Claim C6, as amended. On a payload dict the transform raises exactly when \<open>coord\<close> is
  present and is not a dict with both \<open>lon\<close> and \<open>lat\<close>. When \<open>coord\<close> is absent or
  is such a dict, whatever else the payload holds or lacks, the call returns the flag of
  the insertion, the document is appended exactly when the insertion succeeds, and
  \<open>geojson_location\<close> is the point \<open>[lon, lat]\<close> when \<open>coord\<close> is present and is not
  added when it is absent. In the other case the call ends with the exception.
\<close>

theorem transform_total_on_shaped_payload:
  "(coord_ok data \<longrightarrow>
      (\<exists>doc. transform_and_load_to_mongo now ok (Some (JObj data)) city coll
                = Inr (ok, if ok then coll @ [doc] else coll) \<and> point_rule data doc)) \<and>
   (\<not> coord_ok data \<longrightarrow>
      (\<exists>e. transform_and_load_to_mongo now ok (Some (JObj data)) city coll = Inl e))"
proof (intro conjI impI)
  assume "coord_ok data"
  from transform_shape [OF this] obtain doc where
    "transform now (JObj data) city = Inr doc" "point_rule data doc" by blast
  then show "\<exists>doc. transform_and_load_to_mongo now ok (Some (JObj data)) city coll
                = Inr (ok, if ok then coll @ [doc] else coll) \<and> point_rule data doc"
    by (auto simp: transform_and_load_to_mongo_def and_then_def)
next
  assume "\<not> coord_ok data"
  from transform_raises [OF this] obtain e where "transform now (JObj data) city = Inl e" ..
  then have "transform_and_load_to_mongo now ok (Some (JObj data)) city coll = Inl e"
    by (rule load_raises)
  then show "\<exists>e. transform_and_load_to_mongo now ok (Some (JObj data)) city coll = Inl e" ..
qed

text \<open>
  A payload with coordinates and no condition text, and a payload whose \<open>coord\<close> is
  \<open>null\<close>, at clock reading 7.
\<close>

theorem transform_total_on_shaped_payload_witness:
  "(\<exists>doc. transform_and_load_to_mongo 7 True
            (Some (JObj [(''coord'', JObj [(''lon'', JNum 3), (''lat'', JNum 6)])])) ''Lagos'' []
            = Inr (True, if True then [] @ [doc] else []) \<and>
          point_rule [(''coord'', JObj [(''lon'', JNum 3), (''lat'', JNum 6)])] doc) \<and>
   (\<exists>e. transform_and_load_to_mongo 7 True (Some (JObj [(''coord'', JNull)])) ''Lagos'' [] = Inl e)"
proof -
  have h1: "coord_ok [(''coord'', JObj [(''lon'', JNum 3), (''lat'', JNum 6)])]"
    by (simp add: coord_ok_def)
  have h2: "\<not> coord_ok [(''coord'', JNull)]"
    by (simp add: coord_ok_def)
  from transform_total_on_shaped_payload [of "[(''coord'', JObj [(''lon'', JNum 3), (''lat'', JNum 6)])]" 7 True "''Lagos''" "[]"] h1
  have a: "\<exists>doc. transform_and_load_to_mongo 7 True
            (Some (JObj [(''coord'', JObj [(''lon'', JNum 3), (''lat'', JNum 6)])])) ''Lagos'' []
            = Inr (True, if True then [] @ [doc] else []) \<and>
          point_rule [(''coord'', JObj [(''lon'', JNum 3), (''lat'', JNum 6)])] doc"
    by blast
  from transform_total_on_shaped_payload [of "[(''coord'', JNull)]" 7 True "''Lagos''" "[]"] h2
  have b: "\<exists>e. transform_and_load_to_mongo 7 True (Some (JObj [(''coord'', JNull)])) ''Lagos'' [] = Inl e"
    by blast
  from a b show ?thesis by (rule conjI)
qed

text \<open>
  Claim C6 as stated fails: a payload dict whose \<open>coord\<close> lacks \<open>lon\<close> makes the
  transform raise \<open>KeyError\<close>, and nothing is stored.
\<close>

theorem transform_raises_on_partial_coord:
  "transform_and_load_to_mongo 7 True
     (Some (JObj [(''coord'', JObj [(''lat'', JNum 6)]), (''main'', JObj [(''temp'', JNum 30)])]))
     ''Lagos'' []
   = Inl (KeyError ''lon'')"
  by (simp add: transform_and_load_to_mongo_def transform.simps dict_has_def dict_set_def
      and_then_def)

text \<open>
  Claim C10, as amended. For a payload dict with a well-shaped \<open>coord\<close>, the document
  handed to the store agrees with the payload on every field other than
  \<open>fetch_timestamp\<close>, \<open>city_name_clean\<close> and \<open>geojson_location\<close>; it holds the clock
  reading and the city name under the first two, and under the third the point
  \<open>[lon, lat]\<close> when the payload has \<open>coord\<close> and the payload's own value otherwise. It
  is appended exactly when the insertion succeeds. For a null payload nothing is written
  and the step returns \<open>False\<close>.
\<close>

theorem stored_document_frame:
  assumes "coord_ok data"
  shows "(\<exists>doc. transform_and_load_to_mongo now ok (Some (JObj data)) city coll
            = Inr (ok, if ok then coll @ [doc] else coll) \<and>
          (\<forall>k. k \<notin> {''fetch_timestamp'', ''city_name_clean'', ''geojson_location''}
             \<longrightarrow> map_of doc k = map_of data k) \<and>
          map_of doc ''fetch_timestamp'' = Some (JDate now) \<and>
          map_of doc ''city_name_clean'' = Some (JStr city) \<and>
          point_rule data doc) \<and>
         transform_and_load_to_mongo now ok None city coll = Inr (False, coll)"
proof -
  from transform_shape [OF assms] obtain doc where
    "transform now (JObj data) city = Inr doc" "point_rule data doc"
    "\<forall>k. k \<notin> {''fetch_timestamp'', ''city_name_clean'', ''geojson_location''}
       \<longrightarrow> map_of doc k = map_of data k"
    "map_of doc ''fetch_timestamp'' = Some (JDate now)"
    "map_of doc ''city_name_clean'' = Some (JStr city)"
    by blast
  then show ?thesis
    by (auto simp: transform_and_load_to_mongo_def and_then_def)
qed

theorem stored_document_frame_witness:
  "coord_ok [(''main'', JObj [(''temp'', JNum 30)])] \<and>
   ((\<exists>doc. transform_and_load_to_mongo 7 True (Some (JObj [(''main'', JObj [(''temp'', JNum 30)])]))
             ''Lagos'' []
            = Inr (True, if True then [] @ [doc] else []) \<and>
          (\<forall>k. k \<notin> {''fetch_timestamp'', ''city_name_clean'', ''geojson_location''}
             \<longrightarrow> map_of doc k = map_of [(''main'', JObj [(''temp'', JNum 30)])] k) \<and>
          map_of doc ''fetch_timestamp'' = Some (JDate 7) \<and>
          map_of doc ''city_name_clean'' = Some (JStr ''Lagos'') \<and>
          point_rule [(''main'', JObj [(''temp'', JNum 30)])] doc) \<and>
         transform_and_load_to_mongo 7 True None ''Lagos'' [] = Inr (False, []))"
proof -
  have h: "coord_ok [(''main'', JObj [(''temp'', JNum 30)])]"
    by (simp add: coord_ok_def)
  show ?thesis
    by (rule conjI [OF h stored_document_frame [OF h]])
qed

text \<open>
  Claim C10 as stated fails: a payload field named \<open>city_name_clean\<close> does not keep its
  value in the stored document.
\<close>

theorem payload_field_overwritten:
  "transform_and_load_to_mongo 7 True (Some (JObj [(''city_name_clean'', JStr ''X'')])) ''Lagos'' []
     = Inr (True, [[(''city_name_clean'', JStr ''Lagos''), (''fetch_timestamp'', JDate 7)]]) \<and>
   map_of [(''city_name_clean'', JStr ''Lagos''), (''fetch_timestamp'', JDate 7)] ''city_name_clean''
     \<noteq> map_of [(''city_name_clean'', JStr ''X'')] ''city_name_clean''"
  by (simp add: transform_and_load_to_mongo_def transform.simps dict_has_def dict_set_def
      and_then_def)

text \<open>
  Claim C8, as amended. The transform takes the payload and the city name and reads the
  clock itself. Of two successful calls on the same payload and city name, each appends one
  document to its collection, whatever the collection holds; the \<open>fetch_timestamp\<close> of
  each document is the clock reading of its own call, also when the payload has a field of
  this name; and the two documents are equal exactly when the two clock readings are.
\<close>

theorem transform_determined_by_inputs:
  assumes "transform_and_load_to_mongo now1 ok1 (Some payload) city coll1 = Inr (True, coll1')"
      and "transform_and_load_to_mongo now2 ok2 (Some payload) city coll2 = Inr (True, coll2')"
  shows "\<exists>doc1 doc2. coll1' = coll1 @ [doc1] \<and> coll2' = coll2 @ [doc2] \<and>
           map_of doc1 ''fetch_timestamp'' = Some (JDate now1) \<and>
           map_of doc2 ''fetch_timestamp'' = Some (JDate now2) \<and>
           (doc1 = doc2 \<longleftrightarrow> now1 = now2)"
proof -
  from assms(1) obtain doc1 where d1: "transform now1 payload city = Inr doc1" "coll1' = coll1 @ [doc1]"
    by (cases payload)
       (auto simp: transform_and_load_to_mongo_def and_then_def split: sum.splits if_splits)
  from assms(2) obtain doc2 where d2: "transform now2 payload city = Inr doc2" "coll2' = coll2 @ [doc2]"
    by (cases payload)
       (auto simp: transform_and_load_to_mongo_def and_then_def split: sum.splits if_splits)
  from d1(1) have t1: "map_of doc1 ''fetch_timestamp'' = Some (JDate now1)" by (rule transform_timestamp)
  from d2(1) have t2: "map_of doc2 ''fetch_timestamp'' = Some (JDate now2)" by (rule transform_timestamp)
  have "doc1 = doc2 \<longleftrightarrow> now1 = now2"
  proof
    assume "doc1 = doc2"
    with t1 t2 show "now1 = now2" by simp
  next
    assume "now1 = now2"
    with d1(1) d2(1) show "doc1 = doc2" by simp
  qed
  with d1(2) d2(2) t1 t2 show ?thesis by blast
qed

text \<open>
  Two calls, at the clock readings 10 and 20, on a payload that carries its own
  \<open>fetch_timestamp\<close>, one on an empty collection and one on a collection with a document.
\<close>

theorem transform_determined_by_inputs_witness:
  "transform_and_load_to_mongo 10 True
     (Some (JObj [(''fetch_timestamp'', JStr ''old''), (''main'', JObj [(''temp'', JNum 32)])]))
     ''Lagos'' []
   = Inr (True, [[(''fetch_timestamp'', JDate 10), (''main'', JObj [(''temp'', JNum 32)]),
                  (''city_name_clean'', JStr ''Lagos'')]]) \<and>
   transform_and_load_to_mongo 20 True
     (Some (JObj [(''fetch_timestamp'', JStr ''old''), (''main'', JObj [(''temp'', JNum 32)])]))
     ''Lagos'' [[(''city_name_clean'', JStr ''Abuja'')]]
   = Inr (True, [[(''city_name_clean'', JStr ''Abuja'')],
                 [(''fetch_timestamp'', JDate 20), (''main'', JObj [(''temp'', JNum 32)]),
                  (''city_name_clean'', JStr ''Lagos'')]]) \<and>
   (\<exists>doc1 doc2.
      [[(''fetch_timestamp'', JDate 10), (''main'', JObj [(''temp'', JNum 32)]),
        (''city_name_clean'', JStr ''Lagos'')]] = [] @ [doc1] \<and>
      [[(''city_name_clean'', JStr ''Abuja'')],
       [(''fetch_timestamp'', JDate 20), (''main'', JObj [(''temp'', JNum 32)]),
        (''city_name_clean'', JStr ''Lagos'')]] = [[(''city_name_clean'', JStr ''Abuja'')]] @ [doc2] \<and>
      map_of doc1 ''fetch_timestamp'' = Some (JDate 10) \<and>
      map_of doc2 ''fetch_timestamp'' = Some (JDate 20) \<and>
      (doc1 = doc2 \<longleftrightarrow> (10::nat) = 20))"
proof -
  have h1: "transform_and_load_to_mongo 10 True
     (Some (JObj [(''fetch_timestamp'', JStr ''old''), (''main'', JObj [(''temp'', JNum 32)])]))
     ''Lagos'' []
   = Inr (True, [[(''fetch_timestamp'', JDate 10), (''main'', JObj [(''temp'', JNum 32)]),
                  (''city_name_clean'', JStr ''Lagos'')]])"
    by code_simp
  have h2: "transform_and_load_to_mongo 20 True
     (Some (JObj [(''fetch_timestamp'', JStr ''old''), (''main'', JObj [(''temp'', JNum 32)])]))
     ''Lagos'' [[(''city_name_clean'', JStr ''Abuja'')]]
   = Inr (True, [[(''city_name_clean'', JStr ''Abuja'')],
                 [(''fetch_timestamp'', JDate 20), (''main'', JObj [(''temp'', JNum 32)]),
                  (''city_name_clean'', JStr ''Lagos'')]])"
    by code_simp
  show ?thesis
    by (rule conjI [OF h1 conjI [OF h2 transform_determined_by_inputs [OF h1 h2]]])
qed

text \<open>
  Claim C8 as stated fails: the function is not determined by its arguments. Two calls
  with the same payload and the same city name, made at different times, store different
  documents.
\<close>

theorem same_arguments_different_documents:
  "transform_and_load_to_mongo 10 True (Some (JObj [(''main'', JObj [(''temp'', JNum 30)])])) ''Lagos'' []
     = Inr (True, [[(''main'', JObj [(''temp'', JNum 30)]), (''fetch_timestamp'', JDate 10),
                    (''city_name_clean'', JStr ''Lagos'')]]) \<and>
   transform_and_load_to_mongo 20 True (Some (JObj [(''main'', JObj [(''temp'', JNum 30)])])) ''Lagos'' []
     = Inr (True, [[(''main'', JObj [(''temp'', JNum 30)]), (''fetch_timestamp'', JDate 20),
                    (''city_name_clean'', JStr ''Lagos'')]]) \<and>
   [(''main'', JObj [(''temp'', JNum 30)]), (''fetch_timestamp'', JDate 10),
    (''city_name_clean'', JStr ''Lagos'')]
   \<noteq> [(''main'', JObj [(''temp'', JNum 30)]), (''fetch_timestamp'', JDate 20),
      (''city_name_clean'', JStr ''Lagos'')]"
  by code_simp

section \<open>The loader of load\_locations.py\<close>

lemma insert_rows_effect:
  "insert_rows u env i rows conn = (ok, conn') \<Longrightarrow>
     committed conn' = committed conn \<and>
     (ok \<longrightarrow> pending conn' = pending conn @ map insert_values rows)"
proof (induction rows arbitrary: i conn)
  case Nil
  then show ?case by auto
next
  case (Cons row rows)
  show ?case
  proof (cases "execute_insert u env i row conn")
    case None
    with Cons.prems show ?thesis by auto
  next
    case (Some c)
    with Cons.prems have "insert_rows u env (Suc i) rows c = (ok, conn')" by simp
    from Cons.IH [OF this] Some show ?thesis
      by (auto simp: execute_insert_def split: if_splits)
  qed
qed

lemma insert_rows_plain:
  "\<forall>i. execute_ok env i \<Longrightarrow>
   insert_rows False env i rows conn = (True, conn\<lparr>pending := pending conn @ map insert_values rows\<rparr>)"
  by (induction rows arbitrary: i conn) (auto simp: execute_insert_def)

lemma city_name_insert_values [simp]: "city_name (insert_values r) = city_name r"
  by (simp add: insert_values_def)

lemma insert_rows_unique_fresh:
  "\<forall>i. execute_ok env i \<Longrightarrow> distinct (map city_name rows) \<Longrightarrow>
   set (map city_name rows) \<inter> set (map city_name (committed conn @ pending conn)) = {} \<Longrightarrow>
   insert_rows True env i rows conn = (True, conn\<lparr>pending := pending conn @ map insert_values rows\<rparr>)"
proof (induction rows arbitrary: i conn)
  case Nil
  then show ?case by simp
next
  case (Cons row rows)
  let ?c = "conn\<lparr>pending := pending conn @ [insert_values row]\<rparr>"
  have e: "execute_insert True env i row conn = Some ?c"
    using Cons.prems by (auto simp: execute_insert_def)
  have "insert_rows True env (Suc i) rows ?c = (True, ?c\<lparr>pending := pending ?c @ map insert_values rows\<rparr>)"
    using Cons.prems by (intro Cons.IH) auto
  with e show ?case by simp
qed

lemma load_data_plain:
  "healthy env \<Longrightarrow> load_data False env df table = (Loaded (length df), table @ map insert_values df)"
  by (simp add: load_data_def healthy_def insert_rows_plain commit_def)

lemma load_data_unique_fresh:
  "healthy env \<Longrightarrow> distinct (map city_name df) \<Longrightarrow>
   set (map city_name df) \<inter> set (map city_name table) = {} \<Longrightarrow>
   load_data True env df table = (Loaded (length df), table @ map insert_values df)"
  by (simp add: load_data_def healthy_def insert_rows_unique_fresh commit_def)

lemma load_data_unique_clash:
  "df \<noteq> [] \<Longrightarrow> city_name (hd df) \<in> set (map city_name table) \<Longrightarrow>
   load_data True env df table = (LoadFailed, table)"
  by (cases df) (auto simp: load_data_def execute_insert_def rollback_def)

lemma to_numeric_column_Some:
  "\<forall>s \<in> set ss. p s \<noteq> None \<Longrightarrow> to_numeric_column p ss = Some (map (\<lambda>s. the (p s)) ss)"
  by (induction ss) auto

lemma to_numeric_column_None:
  "\<exists>s \<in> set ss. p s = None \<Longrightarrow> to_numeric_column p ss = None"
  by (induction ss) (auto split: option.splits)

lemma make_rows_convert:
  "make_rows rows (map (\<lambda>s. the (p s)) (map (\<lambda>(c, la, lo). la) rows))
                  (map (\<lambda>s. the (p s)) (map (\<lambda>(c, la, lo). lo) rows))
   = map (convert_row p) rows"
  by (induction rows) (auto simp: make_rows_def convert_row_def)

lemma transform_data_numeric:
  assumes "\<forall>r \<in> set (dropna df). is_numeric_row p r"
  shows "transform_data p df = drop_duplicates [] (map (convert_row p) (dropna df))"
proof -
  have la: "\<forall>s \<in> set (map (\<lambda>(c, la, lo). la) (dropna df)). p s \<noteq> None"
    using assms by (auto simp: is_numeric_row_def)
  have lo: "\<forall>s \<in> set (map (\<lambda>(c, la, lo). lo) (dropna df)). p s \<noteq> None"
    using assms by (auto simp: is_numeric_row_def)
  show ?thesis
    by (simp add: transform_data_def to_numeric_column_Some [OF la] to_numeric_column_Some [OF lo]
        make_rows_convert del: map_map)
qed

lemma transform_data_not_numeric:
  assumes "\<exists>r \<in> set (dropna df). \<not> is_numeric_row p r"
  shows "transform_data p df = []"
proof -
  from assms obtain r0 where r0: "r0 \<in> set (dropna df)" "\<not> is_numeric_row p r0" by blast
  obtain c la lo where "r0 = (c, la, lo)" by (cases r0)
  with r0 have r: "(c, la, lo) \<in> set (dropna df)" "p la = None \<or> p lo = None"
    by (auto simp: is_numeric_row_def)
  show ?thesis
  proof (cases "p la = None")
    case True
    with r have "\<exists>s \<in> set (map (\<lambda>(c, la, lo). la) (dropna df)). p s = None" by force
    then have "to_numeric_column p (map (\<lambda>(c, la, lo). la) (dropna df)) = None"
      by (rule to_numeric_column_None)
    then show ?thesis by (simp add: transform_data_def Let_def)
  next
    case False
    with r have "\<exists>s \<in> set (map (\<lambda>(c, la, lo). lo) (dropna df)). p s = None" by force
    then have "to_numeric_column p (map (\<lambda>(c, la, lo). lo) (dropna df)) = None"
      by (rule to_numeric_column_None)
    then show ?thesis
      by (simp add: transform_data_def Let_def split: option.splits)
  qed
qed

lemma drop_duplicates_names:
  "set (map city_name (drop_duplicates seen rs)) = set (map city_name rs) - set seen"
  by (induction rs arbitrary: seen) auto

lemma drop_duplicates_unseen:
  "r \<in> set (drop_duplicates seen rs) \<Longrightarrow> city_name r \<notin> set seen"
  using drop_duplicates_names [of seen rs] by auto

lemma drop_duplicates_distinct:
  "distinct (map city_name (drop_duplicates seen rs))"
  by (induction rs arbitrary: seen) (auto dest: drop_duplicates_unseen)









lemma main_load_locations_Some:
  "main_load_locations u env p (Some df) table =
     (if transform_data p df \<noteq> []
      then (case load_data u env (transform_data p df) table of (rep, table') \<Rightarrow> (LoadRun rep, table'))
      else (NothingToLoad, table))"
  by (simp add: main_load_locations_def Let_def)


text \<open>
  Claim C9. A load that fails leaves the table as it was before: whether the connection does
  not open, a statement raises partway through the batch, or the commit fails, no row of
  the batch remains. A load that reports success has appended every row of the batch.
\<close>

theorem load_data_all_or_nothing:
  "(fst (load_data u env df table) = LoadFailed \<longrightarrow> snd (load_data u env df table) = table) \<and>
   (\<forall>n. fst (load_data u env df table) = Loaded n \<longrightarrow>
        n = length df \<and> snd (load_data u env df table) = table @ map insert_values df)"
proof (cases "insert_rows u env 0 df \<lparr>committed = table, pending = []\<rparr>")
  case (Pair ok conn)
  from insert_rows_effect [OF Pair] show ?thesis
    by (auto simp: load_data_def Pair commit_def rollback_def)
qed

text \<open>
  A batch of two rows whose second statement fails: the first row was inserted in the open
  transaction, and the table afterwards is the table before.
\<close>

theorem load_data_all_or_nothing_witness:
  "insert_rows False env_second_fails 0
     [\<lparr>city_name = ''Lagos'', latitude = 6, longitude = 3\<rparr>,
      \<lparr>city_name = ''Abuja'', latitude = 9, longitude = 7\<rparr>]
     \<lparr>committed = accra_table, pending = []\<rparr>
   = (False, \<lparr>committed = accra_table,
              pending = [\<lparr>city_name = ''Lagos'', latitude = 6, longitude = 3, geom = (3, 6, 4326)\<rparr>]\<rparr>) \<and>
   fst (load_data False env_second_fails
     [\<lparr>city_name = ''Lagos'', latitude = 6, longitude = 3\<rparr>,
      \<lparr>city_name = ''Abuja'', latitude = 9, longitude = 7\<rparr>] accra_table) = LoadFailed \<and>
   snd (load_data False env_second_fails
     [\<lparr>city_name = ''Lagos'', latitude = 6, longitude = 3\<rparr>,
      \<lparr>city_name = ''Abuja'', latitude = 9, longitude = 7\<rparr>] accra_table) = accra_table"
proof -
  have partway: "insert_rows False env_second_fails 0
     [\<lparr>city_name = ''Lagos'', latitude = 6, longitude = 3\<rparr>,
      \<lparr>city_name = ''Abuja'', latitude = 9, longitude = 7\<rparr>]
     \<lparr>committed = accra_table, pending = []\<rparr>
   = (False, \<lparr>committed = accra_table,
              pending = [\<lparr>city_name = ''Lagos'', latitude = 6, longitude = 3, geom = (3, 6, 4326)\<rparr>]\<rparr>)"
    by code_simp
  have failed: "fst (load_data False env_second_fails
     [\<lparr>city_name = ''Lagos'', latitude = 6, longitude = 3\<rparr>,
      \<lparr>city_name = ''Abuja'', latitude = 9, longitude = 7\<rparr>] accra_table) = LoadFailed"
    by code_simp
  from load_data_all_or_nothing [of False env_second_fails
     "[\<lparr>city_name = ''Lagos'', latitude = 6, longitude = 3\<rparr>,
       \<lparr>city_name = ''Abuja'', latitude = 9, longitude = 7\<rparr>]" accra_table] partway failed
  show ?thesis by blast
qed

text \<open>
  Claim C3, as amended. A coordinate that is not a number, in any row that has all three
  fields, fails the whole batch: \<open>transform_data\<close> returns the empty frame, no row of the
  batch is loaded, and the table is left as it was.
\<close>

theorem non_numeric_coordinate_discards_batch:
  assumes "\<exists>r \<in> set (dropna df). \<not> is_numeric_row p r"
  shows "transform_data p df = [] \<and>
         main_load_locations u env p (Some df) table = (NothingToLoad, table)"
  using transform_data_not_numeric [OF assms] by (simp add: main_load_locations_Some)

theorem non_numeric_coordinate_discards_batch_witness:
  "(\<exists>r \<in> set (dropna batch_bad_and_duplicate). \<not> is_numeric_row decimal r) \<and>
   (transform_data decimal batch_bad_and_duplicate = [] \<and>
    main_load_locations False env_ok decimal (Some batch_bad_and_duplicate) accra_table
      = (NothingToLoad, accra_table))"
proof -
  have h: "\<exists>r \<in> set (dropna batch_bad_and_duplicate). \<not> is_numeric_row decimal r"
    by code_simp
  show ?thesis
    by (rule conjI [OF h non_numeric_coordinate_discards_batch [OF h]])
qed

text \<open>
  Claim C3 as stated fails: of two rows, one with the latitude \<open>x\<close>, the other row is not
  kept either, and a healthy database receives nothing.
\<close>

theorem valid_row_lost_with_bad_row:
  "transform_data decimal batch_bad_latitude = [] \<and>
   snd (main_load_locations False env_ok decimal (Some batch_bad_latitude) []) = []"
  by code_simp




text \<open>
  Claim C2, as amended. The loader inserts and never updates. With a healthy database and a
  batch that cleans to at least one row: when the table has no uniqueness constraint on
  \<open>city_name\<close>, the second run appends every cleaned row a second time; when it has one
  (and the first run meets no name already in the table), the first run appends the cleaned
  rows and the second run fails on its first statement and leaves them as they are.
\<close>

theorem second_run_inserts_again:
  assumes "healthy env1" and "healthy env2" and "transform_data p df \<noteq> []"
  shows "(\<not> u \<longrightarrow>
            snd (main_load_locations u env2 p (Some df) (snd (main_load_locations u env1 p (Some df) table)))
              = table @ map insert_values (transform_data p df) @ map insert_values (transform_data p df)) \<and>
         (u \<and> set (map city_name (transform_data p df)) \<inter> set (map city_name table) = {} \<longrightarrow>
            main_load_locations u env1 p (Some df) table
              = (LoadRun (Loaded (length (transform_data p df))), table @ map insert_values (transform_data p df)) \<and>
            main_load_locations u env2 p (Some df) (table @ map insert_values (transform_data p df))
              = (LoadRun LoadFailed, table @ map insert_values (transform_data p df)))"
proof -
  let ?out = "transform_data p df"
  have d: "distinct (map city_name ?out)"
  proof (cases "\<forall>r \<in> set (dropna df). is_numeric_row p r")
    case True
    then show ?thesis by (simp add: transform_data_numeric drop_duplicates_distinct)
  next
    case False
    then show ?thesis by (simp add: transform_data_not_numeric)
  qed
  have plain: "\<not> u \<Longrightarrow> ?thesis"
    using assms by (simp add: main_load_locations_Some load_data_plain)
  have uniq: "u \<Longrightarrow> ?thesis"
  proof (cases "set (map city_name ?out) \<inter> set (map city_name table) = {}")
    case True
    assume u
    have first: "load_data True env1 ?out table = (Loaded (length ?out), table @ map insert_values ?out)"
      using assms(1) d True by (rule load_data_unique_fresh)
    from assms(3) have "city_name (hd ?out) \<in> set (map city_name (table @ map insert_values ?out))"
      by (cases ?out) auto
    with assms(3) have "load_data True env2 ?out (table @ map insert_values ?out)
        = (LoadFailed, table @ map insert_values ?out)"
      by (rule load_data_unique_clash)
    with first \<open>u\<close> assms(3) show ?thesis
      by (simp add: main_load_locations_Some)
  next
    case False
    assume u
    with False show ?thesis by simp
  qed
  from plain uniq show ?thesis by blast
qed

theorem second_run_inserts_again_witness:
  "healthy env_ok \<and> transform_data decimal batch_lagos \<noteq> [] \<and>
   snd (main_load_locations False env_ok decimal (Some batch_lagos)
          (snd (main_load_locations False env_ok decimal (Some batch_lagos) [])))
     = [lagos_row, lagos_row] \<and>
   main_load_locations True env_ok decimal (Some batch_lagos) []
     = (LoadRun (Loaded 1), [lagos_row]) \<and>
   main_load_locations True env_ok decimal (Some batch_lagos) [lagos_row]
     = (LoadRun LoadFailed, [lagos_row])"
proof -
  have h: "healthy env_ok" by (simp add: healthy_def)
  have ne: "transform_data decimal batch_lagos \<noteq> []" by code_simp
  have out: "map insert_values (transform_data decimal batch_lagos) = [lagos_row]" by code_simp
  have len: "length (transform_data decimal batch_lagos) = 1" by code_simp
  have fresh: "set (map city_name (transform_data decimal batch_lagos)) \<inter> set (map city_name ([] :: pg_row list)) = {}"
    by simp
  from second_run_inserts_again [OF h h ne, where u = False and table = "[]"]
  have plain: "snd (main_load_locations False env_ok decimal (Some batch_lagos)
          (snd (main_load_locations False env_ok decimal (Some batch_lagos) [])))
     = [lagos_row, lagos_row]"
    by (simp add: out)
  from second_run_inserts_again [OF h h ne, where u = True and table = "[]"] fresh
  have uniq: "main_load_locations True env_ok decimal (Some batch_lagos) []
     = (LoadRun (Loaded 1), [lagos_row]) \<and>
   main_load_locations True env_ok decimal (Some batch_lagos) [lagos_row]
     = (LoadRun LoadFailed, [lagos_row])"
    by (simp add: out len)
  from h ne plain uniq show ?thesis by blast
qed

text \<open>
  Claim C2 as stated fails: without a uniqueness constraint, two runs on the same one-row
  batch leave two rows named Lagos, where one run leaves one.
\<close>

theorem second_run_duplicates_rows:
  "snd (main_load_locations False env_ok decimal (Some batch_lagos) []) = [lagos_row] \<and>
   snd (main_load_locations False env_ok decimal (Some batch_lagos)
          (snd (main_load_locations False env_ok decimal (Some batch_lagos) [])))
     = [lagos_row, lagos_row] \<and>
   \<not> distinct (map city_name [lagos_row, lagos_row])"
  by code_simp

section \<open>The run of fetch\_weather.py\<close>

lemma length_map_filter_le: "length (List.map_filter f xs) \<le> length xs"
  by (simp add: map_filter_def) 

lemma step_ok:
  assumes "truthy (Some v)" and "transform now v city = Inr doc"
  shows "transform_and_load_to_mongo now ok (Some v) city coll
           = Inr (ok, if ok then coll @ [doc] else coll)"
  using assms by (cases v) (auto simp: transform_and_load_to_mongo_def and_then_def)

lemma main_loop_result:
  assumes "\<forall>p \<in> set (enumerate i locs). \<not> raises_at w p"
  shows "main_loop w i locs (s, f, coll)
           = Inr (s + length (List.map_filter (stored_at w) (enumerate i locs)),
                  f + (length locs - length (List.map_filter (stored_at w) (enumerate i locs))),
                  coll @ List.map_filter (stored_at w) (enumerate i locs))"
  using assms
proof (induction locs arbitrary: i s f coll)
  case Nil
  then show ?case by (simp add: map_filter_simps)
next
  case (Cons loc locs)
  obtain city lat lon where loc: "loc = (city, lat, lon)" by (cases loc)
  let ?D = "List.map_filter (stored_at w) (enumerate (Suc i) locs)"
  have le: "length ?D \<le> length locs"
    using length_map_filter_le [of "stored_at w" "enumerate (Suc i) locs"] by simp
  from Cons.prems have rest: "\<forall>p \<in> set (enumerate (Suc i) locs). \<not> raises_at w p" by simp
  note IH = Cons.IH [OF rest]
  from Cons.prems have here: "\<not> raises_at w (i, city, lat, lon)" by (simp add: loc)
  show ?case
  proof (cases "fetch_weather_data w i lat lon")
    case None
    then have "stored_at w (i, city, lat, lon) = None" by (simp add: stored_at_def)
    with None le show ?thesis by (simp add: loc IH map_filter_simps)
  next
    case (Some v)
    show ?thesis
    proof (cases "truthy (Some v)")
      case False
      with Some have "stored_at w (i, city, lat, lon) = None" by (simp add: stored_at_def)
      with Some False le show ?thesis by (simp add: loc IH map_filter_simps)
    next
      case True
      with here Some obtain doc where doc: "transform (utcnow w i) v city = Inr doc"
        by (cases "transform (utcnow w i) v city") (auto simp: raises_at_def)
      note st = step_ok [OF True doc, of "insert_ok w i" coll]
      show ?thesis
      proof (cases "insert_ok w i")
        case ok: True
        with Some True doc have "stored_at w (i, city, lat, lon) = Some doc" by (simp add: stored_at_def)
        with Some True ok st le show ?thesis
          by (simp add: loc IH map_filter_simps and_then_def)
      next
        case no: False
        with Some have "stored_at w (i, city, lat, lon) = None" by (simp add: stored_at_def)
        with Some True no st le show ?thesis
          by (simp add: loc IH map_filter_simps and_then_def)
      qed
    qed
  qed
qed

text \<open>
  Claim C4, as amended. In a run over the locations read from the table, where no answer of
  the provider makes the transform raise, every location is counted once, as a success or
  as a failure; the successes are the locations whose own request was answered and whose
  own insertion succeeded, and the collection afterwards is the collection before followed
  by the documents of exactly these locations, in order. What a location contributes is
  read from the world at its own position, so a failed request or insertion elsewhere does
  not change it.
\<close>

theorem run_counts_each_location:
  assumes "get_locations_from_postgres pg_ok locations_table \<noteq> []"
      and "\<forall>p \<in> set (enumerate 0 (get_locations_from_postgres pg_ok locations_table)). \<not> raises_at w p"
  shows "main_fetch_weather w pg_ok locations_table coll
           = Inr (Complete
                    (length (List.map_filter (stored_at w)
                       (enumerate 0 (get_locations_from_postgres pg_ok locations_table))))
                    (length (get_locations_from_postgres pg_ok locations_table)
                       - length (List.map_filter (stored_at w)
                           (enumerate 0 (get_locations_from_postgres pg_ok locations_table)))),
                  coll @ List.map_filter (stored_at w)
                       (enumerate 0 (get_locations_from_postgres pg_ok locations_table)))"
  using assms(1) main_loop_result [OF assms(2), of 0 0 coll]
  by (simp add: main_fetch_weather_def and_then_def Let_def)

text \<open>
  Three locations, the request for the second fails: two successes, one failure, and the
  reports for the first and the third location are in the collection.
\<close>

theorem run_counts_each_location_witness:
  "get_locations_from_postgres True three_locations \<noteq> [] \<and>
   main_fetch_weather world_second_fetch_fails True three_locations []
     = Inr (Complete 2 1, [stored_report ''Lagos'' 6 3 10, stored_report ''Accra'' 5 0 12])"
proof -
  have h1: "get_locations_from_postgres True three_locations \<noteq> []"
    by code_simp
  have h2: "\<forall>p \<in> set (enumerate 0 (get_locations_from_postgres True three_locations)).
      \<not> raises_at world_second_fetch_fails p"
    by code_simp
  have docs: "List.map_filter (stored_at world_second_fetch_fails)
       (enumerate 0 (get_locations_from_postgres True three_locations))
     = [stored_report ''Lagos'' 6 3 10, stored_report ''Accra'' 5 0 12]"
    by code_simp
  have locs: "length (get_locations_from_postgres True three_locations) = 3"
    by code_simp
  note r = run_counts_each_location [OF h1 h2, of "[]", unfolded docs locs]
  then have "main_fetch_weather world_second_fetch_fails True three_locations []
     = Inr (Complete 2 1, [stored_report ''Lagos'' 6 3 10, stored_report ''Accra'' 5 0 12])"
    by simp
  with h1 show ?thesis by blast
qed

text \<open>
  Claim C4 as stated fails: when the second of three requests is answered with a JSON
  array, the transform raises out of the loop; the run ends with the exception and without
  its report, although the first and the third location would each have stored a document.
\<close>

theorem malformed_answer_aborts_run:
  "main_fetch_weather world_second_answer_malformed True three_locations [] = Inl TypeError \<and>
   stored_at world_second_answer_malformed (0, ''Lagos'', 6, 3) = Some (stored_report ''Lagos'' 6 3 10) \<and>
   stored_at world_second_answer_malformed (2, ''Accra'', 5, 0) = Some (stored_report ''Accra'' 5 0 12)"
  by code_simp

section \<open>The two queries of app.py\<close>

lemma sorts_ascending_stable: "sorts_ascending stable_sort_asc"
  by (simp add: sorts_ascending_def stable_sort_asc_def)

lemma sorts_descending_stable: "sorts_descending stable_sort_desc"
  by (simp add: sorts_descending_def stable_sort_desc_def rev_map [symmetric])

lemma group_first_keys:
  "set (map fst (group_first seen ds)) = group_id ` set ds - set seen"
  by (induction ds arbitrary: seen) auto

lemma group_first_unseen:
  "(k, d) \<in> set (group_first seen ds) \<Longrightarrow> k \<notin> set seen"
  using group_first_keys [of seen ds] by force

lemma group_first_distinct: "distinct (map fst (group_first seen ds))"
  by (induction ds arbitrary: seen) (auto dest: group_first_unseen)

lemma group_first_find:
  "(k, d) \<in> set (group_first seen ds) \<Longrightarrow> find (\<lambda>x. group_id x = k) ds = Some d"
proof (induction ds arbitrary: seen)
  case Nil
  then show ?case by simp
next
  case (Cons a ds)
  show ?case
  proof (cases "group_id a \<in> set seen")
    case True
    with Cons.prems have m: "(k, d) \<in> set (group_first seen ds)" by simp
    then have "k \<notin> set seen" by (rule group_first_unseen)
    with True have "group_id a \<noteq> k" by auto
    with Cons.IH [OF m] show ?thesis by simp
  next
    case False
    with Cons.prems consider "k = group_id a \<and> d = a"
      | "(k, d) \<in> set (group_first (group_id a # seen) ds)" by auto
    then show ?thesis
    proof cases
      case 1
      then show ?thesis by simp
    next
      case 2
      then have "k \<notin> set (group_id a # seen)" by (rule group_first_unseen)
      then have "group_id a \<noteq> k" by auto
      with Cons.IH [OF 2] show ?thesis by simp
    qed
  qed
qed

lemma first_of_descending_is_max:
  "sorted (rev (map f xs)) \<Longrightarrow> find P xs = Some d \<Longrightarrow> x \<in> set xs \<Longrightarrow> P x \<Longrightarrow> f x \<le> f d"
proof (induction xs)
  case Nil
  then show ?case by simp
next
  case (Cons a xs)
  from Cons.prems(1) have s: "sorted (rev (map f xs))" and top: "\<forall>y \<in> set xs. f y \<le> f a"
    by (auto simp: sorted_append)
  show ?case
  proof (cases "P a")
    case True
    with Cons.prems(2) have "d = a" by simp
    with Cons.prems(3) top show ?thesis by auto
  next
    case False
    with Cons.prems have "find P xs = Some d" "x \<in> set xs" by auto
    with Cons.IH [OF s] Cons.prems(4) show ?thesis by blast
  qed
qed

lemma find_SomeD: "find P xs = Some d \<Longrightarrow> P d \<and> d \<in> set xs"
  by (auto simp: find_Some_iff)

lemma flatten_report_renderable:
  assumes "renderable d"
  shows "\<exists>r. flatten_report d = Inr r \<and>
             map_city_name r = dict_get d ''city_name_clean'' (JStr ''Unknown'')"
proof -
  from assms obtain m c w ws wd where
    "dict_get d ''main'' (JObj []) = JObj m" "dict_get d ''coord'' (JObj []) = JObj c"
    "dict_get d ''weather'' (JArr [JObj []]) = JArr (w # ws)" "w = JObj wd"
    by (auto simp: renderable_def main_ok_def is_dict_def split: json.splits list.splits)
  then show ?thesis
    by (simp add: flatten_report_def and_then_def)
qed

lemma observation_key:
  "is_observation d \<Longrightarrow> dict_get d ''city_name_clean'' (JStr ''Unknown'') = group_id d"
  by (auto simp: is_observation_def group_id_def dict_get_def split: option.splits)

lemma flatten_all_renderable:
  assumes "\<forall>rep \<in> set reports. renderable (snd rep)"
  shows "\<exists>rows. flatten_all reports = Inr rows \<and>
           list_all2 (\<lambda>rep r. flatten_report (snd rep) = Inr r) reports rows"
  using assms
proof (induction reports)
  case Nil
  then show ?case by simp
next
  case (Cons rep reports)
  then obtain rows where rows: "flatten_all reports = Inr rows"
      "list_all2 (\<lambda>rep r. flatten_report (snd rep) = Inr r) reports rows" by auto
  from Cons.prems flatten_report_renderable [of "snd rep"] obtain r where
      r: "flatten_report (snd rep) = Inr r" by auto
  from rows r show ?case by (simp add: and_then_def)
qed

lemma history_row_main_ok:
  assumes "main_ok d"
  shows "\<exists>r. history_row d = Inr r \<and> hist_timestamp r = dict_get d ''fetch_timestamp'' JNull"
proof -
  from assms obtain m where "dict_get d ''main'' (JObj []) = JObj m"
    by (auto simp: main_ok_def is_dict_def split: json.splits)
  then show ?thesis by (simp add: history_row_def and_then_def)
qed

lemma history_rows_main_ok:
  assumes "\<forall>d \<in> set ds. main_ok d"
  shows "\<exists>rows. history_rows ds = Inr rows \<and>
           list_all2 (\<lambda>d r. history_row d = Inr r \<and>
                             hist_timestamp r = dict_get d ''fetch_timestamp'' JNull) ds rows"
  using assms
proof (induction ds)
  case Nil
  then show ?case by simp
next
  case (Cons d ds)
  then obtain rows where rows: "history_rows ds = Inr rows"
      "list_all2 (\<lambda>d r. history_row d = Inr r \<and>
                        hist_timestamp r = dict_get d ''fetch_timestamp'' JNull) ds rows" by auto
  from Cons.prems history_row_main_ok [of d] obtain r where
      r: "history_row d = Inr r" "hist_timestamp r = dict_get d ''fetch_timestamp'' JNull" by auto
  from rows r show ?case by (simp add: and_then_def)
qed

lemma list_all2_maps_eq:
  "list_all2 (\<lambda>x y. f x = g y) xs ys \<Longrightarrow> map g ys = map f xs"
  by (induction rule: list_all2_induct) auto

lemma list_all2_source:
  "list_all2 P xs ys \<Longrightarrow> y \<in> set ys \<Longrightarrow> \<exists>x \<in> set xs. P x y"
  by (induction rule: list_all2_induct) auto

text \<open>
  Claim C1, as amended. Whatever descending sort the store applies, on a collection of
  renderable observations the snapshot has exactly one row for each location key of the
  collection and no other row, and each row is the flattened form of an observation of its
  key whose timestamp is the greatest among the observations of this key. Which of several
  observations with this greatest timestamp is taken is left to the store's sort.
\<close>

theorem snapshot_latest_per_key:
  assumes srt: "sorts_descending srt"
      and wf: "\<forall>d \<in> set coll. is_observation d \<and> renderable d"
  shows "\<exists>rows. get_latest_weather_from_mongo srt coll = (Inr rows, coll) \<and>
           distinct (map map_city_name rows) \<and>
           set (map map_city_name rows) = group_id ` set coll \<and>
           (\<forall>r \<in> set rows. \<exists>d \<in> set coll.
              flatten_report d = Inr r \<and> group_id d = map_city_name r \<and>
              (\<forall>d' \<in> set coll. group_id d' = group_id d \<longrightarrow> ts_key d' \<le> ts_key d))"
proof -
  let ?sorted = "srt coll"
  let ?reports = "group_first [] ?sorted"
  from srt have m: "mset ?sorted = mset coll" and desc: "sorted (rev (map ts_key ?sorted))"
    by (auto simp: sorts_descending_def)
  from m have same: "set ?sorted = set coll" by (rule mset_eq_setD)
  have rep: "find (\<lambda>x. group_id x = k) ?sorted = Some d" if "(k, d) \<in> set ?reports" for k d
    using that by (rule group_first_find)
  have rep_in: "d \<in> set coll \<and> group_id d = k" if "(k, d) \<in> set ?reports" for k d
    using find_SomeD [OF rep [OF that]] same by simp
  have "\<forall>rep \<in> set ?reports. renderable (snd rep)"
    using rep_in wf by auto
  from flatten_all_renderable [OF this] obtain rows where
    rows: "flatten_all ?reports = Inr rows"
    and rel: "list_all2 (\<lambda>rep r. flatten_report (snd rep) = Inr r) ?reports rows" by blast
  have name: "map_city_name r = fst rep"
    if "rep \<in> set ?reports" "flatten_report (snd rep) = Inr r" for rep r
  proof -
    obtain k d where kd: "rep = (k, d)" by (cases rep)
    with that rep_in have d: "d \<in> set coll" "group_id d = k" by auto
    with wf have "is_observation d" "renderable d" by auto
    with flatten_report_renderable [of d] observation_key [of d] that(2) kd d show ?thesis
      by auto
  qed
  have "list_all2 (\<lambda>rep r. fst rep = map_city_name r) ?reports rows"
  proof (rule list.rel_mono_strong [OF rel])
    fix rep r
    assume "rep \<in> set ?reports" and "flatten_report (snd rep) = Inr r"
    then show "fst rep = map_city_name r" by (rule name [symmetric])
  qed
  then have names: "map map_city_name rows = map fst ?reports"
    by (rule list_all2_maps_eq)
  have d: "distinct (map map_city_name rows)"
    by (simp only: names group_first_distinct)
  have k: "set (map map_city_name rows) = group_id ` set coll"
    by (simp only: names group_first_keys same) simp
  have each: "\<exists>d \<in> set coll.
              flatten_report d = Inr r \<and> group_id d = map_city_name r \<and>
              (\<forall>d' \<in> set coll. group_id d' = group_id d \<longrightarrow> ts_key d' \<le> ts_key d)"
    if "r \<in> set rows" for r
  proof -
    from list_all2_source [OF rel that] obtain rp where
      rp: "rp \<in> set ?reports" "flatten_report (snd rp) = Inr r" by blast
    obtain k d where kd: "rp = (k, d)" by (cases rp)
    with rp rep_in have din: "d \<in> set coll" "group_id d = k" by auto
    from name [OF rp] kd have nk: "map_city_name r = k" by simp
    have "ts_key d' \<le> ts_key d" if "d' \<in> set coll" "group_id d' = group_id d" for d'
    proof -
      from rp kd have f: "find (\<lambda>x. group_id x = k) ?sorted = Some d" by (auto intro: rep)
      from that same din have "d' \<in> set ?sorted" "group_id d' = k" by auto
      with first_of_descending_is_max [OF desc f] show ?thesis by blast
    qed
    then have top: "\<forall>d' \<in> set coll. group_id d' = group_id d \<longrightarrow> ts_key d' \<le> ts_key d"
      by blast
    from rp kd have fl: "flatten_report d = Inr r" by simp
    from din nk have gk: "group_id d = map_city_name r" by simp
    from din(1) fl gk top show ?thesis by blast
  qed
  have run: "get_latest_weather_from_mongo srt coll = (Inr rows, coll)"
    by (simp add: get_latest_weather_from_mongo_def aggregate_latest_def rows)
  from run d k each show ?thesis by blast
qed

text \<open>
  The collection of the specification's example, with a report for Abuja between the two
  for Lagos: Lagos has exactly one row, with the temperature 32 of the reading at 20.
\<close>

theorem snapshot_latest_per_key_witness:
  "sorts_descending stable_sort_desc \<and>
   (\<exists>rows. get_latest_weather_from_mongo stable_sort_desc lagos_log = (Inr rows, lagos_log) \<and>
           distinct (map map_city_name rows) \<and>
           set (map map_city_name rows) = group_id ` set lagos_log \<and>
           (\<forall>r \<in> set rows. \<exists>d \<in> set lagos_log.
              flatten_report d = Inr r \<and> group_id d = map_city_name r \<and>
              (\<forall>d' \<in> set lagos_log. group_id d' = group_id d \<longrightarrow> ts_key d' \<le> ts_key d))) \<and>
   get_latest_weather_from_mongo stable_sort_desc lagos_log
     = (Inr [snapshot_row ''Lagos'' 20 32, snapshot_row ''Abuja'' 15 25], lagos_log)"
proof -
  have h: "\<forall>d \<in> set lagos_log. is_observation d \<and> renderable d"
    by code_simp
  have ev: "get_latest_weather_from_mongo stable_sort_desc lagos_log
     = (Inr [snapshot_row ''Lagos'' 20 32, snapshot_row ''Abuja'' 15 25], lagos_log)"
    by code_simp
  show ?thesis
    by (intro conjI sorts_descending_stable snapshot_latest_per_key [OF sorts_descending_stable h] ev)
qed

text \<open>
  Claim C1 as stated fails on the tie-break: with a sort that keeps the insertion order
  among equal timestamps, two Lagos reports at the same time give the row of the one
  inserted first (temperature 30), where the specification's rule selects the one
  inserted last (temperature 32).
\<close>

theorem snapshot_tie_keeps_first_inserted:
  "sorts_descending stable_sort_desc \<and>
   fst (get_latest_weather_from_mongo stable_sort_desc tie_log) = Inr [snapshot_row ''Lagos'' 10 30] \<and>
   spec_latest tie_log (JStr ''Lagos'') = Some (report ''Lagos'' 10 32) \<and>
   flatten_report (report ''Lagos'' 10 32) = Inr (snapshot_row ''Lagos'' 10 32)"
proof -
  have "fst (get_latest_weather_from_mongo stable_sort_desc tie_log) = Inr [snapshot_row ''Lagos'' 10 30]"
    by code_simp
  moreover have "spec_latest tie_log (JStr ''Lagos'') = Some (report ''Lagos'' 10 32)"
    by code_simp
  moreover have "flatten_report (report ''Lagos'' 10 32) = Inr (snapshot_row ''Lagos'' 10 32)"
    by code_simp
  ultimately show ?thesis using sorts_descending_stable by blast
qed

text \<open>
  Claim C5, as amended. Whatever ascending sort the store applies, on a collection in which
  the documents of the selected city have a dict (or nothing) under \<open>main\<close>, the history
  has one row for each stored document of this city, in ascending order of timestamp; it
  is empty when the city has no document; and both queries return the collection as they
  found it.
\<close>

theorem history_sorted_and_read_only:
  assumes srt: "sorts_ascending srt"
      and wf: "\<forall>d \<in> set coll. matches_city city d \<longrightarrow> main_ok d"
  shows "(\<exists>ds rows. get_city_history_from_mongo srt city coll = (Inr rows, coll) \<and>
            mset ds = mset (filter (matches_city city) coll) \<and>
            sorted (map ts_key ds) \<and>
            list_all2 (\<lambda>d r. history_row d = Inr r \<and>
                              hist_timestamp r = dict_get d ''fetch_timestamp'' JNull) ds rows \<and>
            (filter (matches_city city) coll = [] \<longrightarrow> rows = [])) \<and>
         snd (get_latest_weather_from_mongo srt' coll) = coll"
proof -
  let ?found = "filter (matches_city city) coll"
  let ?ds = "srt ?found"
  from srt have m: "mset ?ds = mset ?found" and asc: "sorted (map ts_key ?ds)"
    by (auto simp: sorts_ascending_def)
  from m have "set ?ds = set ?found" by (rule mset_eq_setD)
  with wf have "\<forall>d \<in> set ?ds. main_ok d" by auto
  from history_rows_main_ok [OF this] obtain rows where
    rows: "history_rows ?ds = Inr rows"
    and rel: "list_all2 (\<lambda>d r. history_row d = Inr r \<and>
                hist_timestamp r = dict_get d ''fetch_timestamp'' JNull) ?ds rows" by blast
  have "rows = []" if "?found = []"
  proof -
    from that m have "?ds = []" by simp
    with rel show ?thesis by simp
  qed
  with rows rel m asc show ?thesis
    by (auto simp: get_city_history_from_mongo_def get_latest_weather_from_mongo_def)
qed

text \<open>
  The history of Lagos over a collection inserted out of order, and of a city that the
  collection does not know.
\<close>

theorem history_sorted_and_read_only_witness:
  "sorts_ascending stable_sort_asc \<and>
   ((\<exists>ds rows. get_city_history_from_mongo stable_sort_asc ''Lagos'' unordered_log = (Inr rows, unordered_log) \<and>
            mset ds = mset (filter (matches_city ''Lagos'') unordered_log) \<and>
            sorted (map ts_key ds) \<and>
            list_all2 (\<lambda>d r. history_row d = Inr r \<and>
                              hist_timestamp r = dict_get d ''fetch_timestamp'' JNull) ds rows \<and>
            (filter (matches_city ''Lagos'') unordered_log = [] \<longrightarrow> rows = [])) \<and>
         snd (get_latest_weather_from_mongo stable_sort_desc unordered_log) = unordered_log) \<and>
   get_city_history_from_mongo stable_sort_asc ''Lagos'' unordered_log
     = (Inr [history_point 10 30, history_point 20 32], unordered_log) \<and>
   get_city_history_from_mongo stable_sort_asc ''Unknown'' unordered_log = (Inr [], unordered_log)"
proof -
  have h: "\<forall>d \<in> set unordered_log. matches_city ''Lagos'' d \<longrightarrow> main_ok d"
    by code_simp
  have ev: "get_city_history_from_mongo stable_sort_asc ''Lagos'' unordered_log
     = (Inr [history_point 10 30, history_point 20 32], unordered_log)"
    by code_simp
  have none: "get_city_history_from_mongo stable_sort_asc ''Unknown'' unordered_log = (Inr [], unordered_log)"
    by code_simp
  show ?thesis
    by (intro conjI sorts_ascending_stable history_sorted_and_read_only [OF sorts_ascending_stable h] ev none)
qed

text \<open>
  Claim C5 as stated fails: a payload with \<open>null\<close> under \<open>main\<close> is stored by the
  pipeline, and the history of its city then raises instead of returning rows.
\<close>

theorem history_raises_on_null_main:
  "transform_and_load_to_mongo 10 True (Some (JObj [(''main'', JNull)])) ''Lagos'' []
     = Inr (True, [[(''main'', JNull), (''fetch_timestamp'', JDate 10),
                    (''city_name_clean'', JStr ''Lagos'')]]) \<and>
   get_city_history_from_mongo stable_sort_asc ''Lagos''
       [[(''main'', JNull), (''fetch_timestamp'', JDate 10), (''city_name_clean'', JStr ''Lagos'')]]
     = (Inl AttributeError,
        [[(''main'', JNull), (''fetch_timestamp'', JDate 10), (''city_name_clean'', JStr ''Lagos'')]])"
  by code_simp

end
